theory Spec2Isabelle
  imports Complex_Main
begin

section \<open>Conventions\<close>

text \<open>
  The front end is TypeScript. A TypeScript \<open>string\<close> is a \<^typ>\<open>string\<close> here (text outside
  ASCII is written as its UTF-8 bytes), \<open>T | null\<close> is \<^typ>\<open>'a option\<close>, a score or an area is a
  \<^typ>\<open>real\<close> (a finite number: the values come from JSON, which has neither NaN nor infinities)
  and a counter, a year or a yen amount is an \<^typ>\<open>int\<close>. The fields that the interfaces call
  \<open>id\<close> are \<open>popup_id\<close>, \<open>job_id\<close> and \<open>src_id\<close> here, since \<open>id\<close> is the identity function of
  HOL. Functions of React components are named after the component or the control they
  belong to.
\<close>

section \<open>Platform functions\<close>

text \<open>
  The decimal digits of an integral number, as a template literal and \<open>String\<close> write a
  number that has no fraction (below \<open>10^21\<close>, where the exponent notation starts).
\<close>

fun nat_str :: "nat \<Rightarrow> string" where
  "nat_str n =
     (if n < 10 then [''0123456789'' ! n]
      else nat_str (n div 10) @ [''0123456789'' ! (n mod 10)])"

declare nat_str.simps [simp del]

definition int_str :: "int \<Rightarrow> string" where
  "int_str i = (if i < 0 then ''-'' @ nat_str (nat (- i)) else nat_str (nat i))"

text \<open>
  The conversions that depend on the platform are parameters of the model: \<open>num_str\<close> is
  \<open>String(x)\<close> (what a template literal writes) of a number that may have a fraction,
  \<open>to_fixed1\<close> is \<open>x.toFixed(1)\<close>, \<open>to_locale1\<close> is
  \<open>x.toLocaleString(undefined, {maximumFractionDigits: 1})\<close> and \<open>to_locale_int\<close> is
  \<open>x.toLocaleString()\<close> of an integral number. The last two follow the default locale of
  the runtime: its digits, its group sizes, and from how many digits on it groups.
\<close>

record platform =
  num_str :: "real \<Rightarrow> string"
  to_fixed1 :: "real \<Rightarrow> string"
  to_locale1 :: "real \<Rightarrow> string"
  to_locale_int :: "int \<Rightarrow> string"

text \<open>
  \<open>String.prototype.replace\<close> with a one-character pattern under the \<open>g\<close> flag and a
  replacement text without \<open>$\<close>: every occurrence of the character is replaced.
\<close>

definition replace_all :: "char \<Rightarrow> string \<Rightarrow> string \<Rightarrow> string" where
  "replace_all c r s = concat (map (\<lambda>x. if x = c then r else [x]) s)"

text \<open>
  \<open>encodeURIComponent\<close>, on the UTF-8 bytes of the text: letters, digits and
  \<open>- _ . ! ~ * ' ( )\<close> stay, every other byte becomes \<open>%\<close> and two hexadecimal digits.
  (The platform function raises URIError on a lone surrogate; well-formed text has none.)
\<close>

definition uri_unreserved :: "char \<Rightarrow> bool" where
  "uri_unreserved c \<longleftrightarrow>
     c \<in> set ''ABCDEFGHIJKLMNOPQRSTUVWXYZabcdefghijklmnopqrstuvwxyz0123456789-_.!~*()''
     \<or> c = CHR 0x27"

definition percent_encode :: "char \<Rightarrow> string" where
  "percent_encode c =
     [CHR ''%'', ''0123456789ABCDEF'' ! (of_char c div 16), ''0123456789ABCDEF'' ! (of_char c mod 16)]"

definition uri_byte :: "char \<Rightarrow> string" where
  "uri_byte c = (if uri_unreserved c then [c] else percent_encode c)"

definition encodeURIComponent :: "string \<Rightarrow> string" where
  "encodeURIComponent s = concat (map uri_byte s)"

section \<open>lib/japanese-format\<close>

text \<open>\<open>getScoreColor\<close>: the text colour class of a composite score.\<close>

definition getScoreColor :: "real option \<Rightarrow> string" where
  "getScoreColor score =
     (case score of
        None \<Rightarrow> ''text-muted-foreground''
      | Some s \<Rightarrow>
          if s \<ge> 70 then ''text-green-600''
          else if s \<ge> 40 then ''text-yellow-600''
          else ''text-red-600'')"

text \<open>\<open>getScoreBgColor\<close>: the badge classes of a composite score.\<close>

definition getScoreBgColor :: "real option \<Rightarrow> string" where
  "getScoreBgColor score =
     (case score of
        None \<Rightarrow> ''bg-muted''
      | Some s \<Rightarrow>
          if s \<ge> 70 then ''bg-green-100 text-green-800''
          else if s \<ge> 40 then ''bg-yellow-100 text-yellow-800''
          else ''bg-red-100 text-red-800'')"

text \<open>
  \<open>formatManYen\<close>: an amount in units of 10 000 yen. The quotient \<open>amount / 10000\<close> is an
  integer exactly when 10 000 divides the amount (for the whole amounts that a number holds
  exactly, below \<open>2^53\<close>).
\<close>

definition man_yen :: string where
  "man_yen = [CHR 0xE4, CHR 0xB8, CHR 0x87, CHR 0xE5, CHR 0x86, CHR 0x86]"

definition formatManYen :: "platform \<Rightarrow> int \<Rightarrow> string" where
  "formatManYen pf amount =
     (if 10000 dvd amount then int_str (amount div 10000) @ man_yen
      else to_fixed1 pf (real_of_int amount / 10000) @ man_yen)"

section \<open>components/map/PropertyPopup\<close>

record PopupProperties =
  popup_id :: string
  price :: "int option"
  address :: string
  score :: "real option"
  floor_plan :: "string option"
  land_area :: "real option"
  year_built :: "int option"
  rebuild_possible :: "bool option"

text \<open>\<open>formatPrice\<close>: the price of the popup in units of 10 000 yen.\<close>

definition formatPrice :: "platform \<Rightarrow> int option \<Rightarrow> string" where
  "formatPrice pf pr =
     (case pr of
        None \<Rightarrow> ''-''
      | Some amount \<Rightarrow>
          if 10000 dvd amount then to_locale_int pf (amount div 10000) @ man_yen
          else to_locale1 pf (real_of_int amount / 10000) @ man_yen)"

text \<open>
  \<open>scoreBadge\<close>: the coloured badge of the popup. The branch assigns the background and the
  foreground colour, the template then builds the span around the number. \<open>show_num\<close> is the
  platform's conversion of a number to text in a template literal.
\<close>

definition scoreBadge_colors :: "real \<Rightarrow> string \<times> string" where
  "scoreBadge_colors sc =
     (if sc \<ge> 70 then (''#dcfce7'', ''#166534'')
      else if sc \<ge> 40 then (''#fef9c3'', ''#854d0e'')
      else (''#fee2e2'', ''#991b1b''))"

definition scoreBadge :: "(real \<Rightarrow> string) \<Rightarrow> real option \<Rightarrow> string" where
  \<open>scoreBadge show_num sc =
     (case sc of
        None \<Rightarrow> ''<span style="display:inline-block;padding:2px 8px;border-radius:9999px;font-size:11px;background:#e5e7eb;color:#6b7280;">N/A</span>''
      | Some s \<Rightarrow>
          (let (bg, fg) = scoreBadge_colors s
           in ''<span style="display:inline-block;padding:2px 8px;border-radius:9999px;font-size:11px;font-weight:600;background:''
              @ bg @ '';color:'' @ fg @ '';">'' @ show_num s @ ''</span>''))\<close>

text \<open>\<open>rebuildLabel\<close>: the label of the rebuild status.\<close>

definition rebuildLabel :: "bool option \<Rightarrow> string" where
  \<open>rebuildLabel rebuild =
     (case rebuild of
        None \<Rightarrow> ''<span style="color:#6b7280;">?</span>''
      | Some r \<Rightarrow>
          if r then ''<span style="color:#16a34a;font-weight:600;">OK</span>''
          else ''<span style="color:#dc2626;font-weight:600;">NG</span>'')\<close>

text \<open>\<open>tableRow\<close>: one row of the details table; the template spans three lines.\<close>

definition tableRow :: "string \<Rightarrow> string \<Rightarrow> string" where
  \<open>tableRow label v =
     ''<tr>'' @ [CHR 0x0A]
     @ ''    <td style="padding:2px 8px 2px 0;color:#6b7280;white-space:nowrap;">'' @ label @ ''</td>'' @ [CHR 0x0A]
     @ ''    <td style="padding:2px 0;font-weight:500;color:#111827;">'' @ v @ ''</td>'' @ [CHR 0x0A]
     @ ''  </tr>''\<close>

text \<open>\<open>escapeHtml\<close>: five global replacements, one after the other, the ampersand first.\<close>

definition escapeHtml :: "string \<Rightarrow> string" where
  "escapeHtml text =
     replace_all (CHR 0x27) ''&#039;''
       (replace_all (CHR 0x22) ''&quot;''
         (replace_all CHR ''>'' ''&gt;''
           (replace_all CHR ''<'' ''&lt;''
             (replace_all CHR ''&'' ''&amp;'' text))))"

text \<open>
  \<open>createPopupHTML\<close>: the rows are pushed in order and joined without a separator. A floor
  plan is shown when it is neither null nor empty.
\<close>

definition createPopupHTML :: "platform \<Rightarrow> PopupProperties \<Rightarrow> string" where
  \<open>createPopupHTML pf properties =
     (let rows0 =
            [''<div style="font-family:system-ui,-apple-system,sans-serif;min-width:220px;max-width:300px;font-size:13px;line-height:1.5;">'',
             ''<div style="font-weight:700;font-size:14px;margin-bottom:6px;color:#111827;">''
               @ escapeHtml (address properties) @ ''</div>'',
             ''<div style="display:flex;align-items:center;gap:8px;margin-bottom:6px;">'',
             ''<span style="font-size:15px;font-weight:700;color:#7c3aed;">''
               @ formatPrice pf (price properties) @ ''</span>'',
             scoreBadge (num_str pf) (score properties),
             ''</div>'',
             ''<table style="width:100%;border-collapse:collapse;margin-bottom:8px;">''];
          rows1 =
            (case floor_plan properties of
               None \<Rightarrow> rows0
             | Some fp \<Rightarrow>
                 if fp \<noteq> [] then rows0 @ [tableRow ''Floor Plan'' (escapeHtml fp)] else rows0);
          rows2 =
            (case land_area properties of
               None \<Rightarrow> rows1
             | Some a \<Rightarrow> rows1 @ [tableRow ''Land Area'' (to_fixed1 pf a @ ''m&sup2;'')]);
          rows3 =
            (case year_built properties of
               None \<Rightarrow> rows2
             | Some y \<Rightarrow> rows2 @ [tableRow ''Year Built'' (int_str y)]);
          rows4 =
            rows3 @
            [tableRow ''Rebuild'' (rebuildLabel (rebuild_possible properties)),
             ''</table>'',
             ''<a href="/property/'' @ encodeURIComponent (popup_id properties)
               @ ''" style="display:inline-block;margin-top:4px;font-size:12px;color:#2563eb;text-decoration:none;font-weight:500;">View details &rarr;</a>'',
             ''</div>'']
      in concat rows4)\<close>

section \<open>pages/PropertyDetail\<close>

text \<open>\<open>ScoreBar\<close>: the colour of the bar and of the number beside it.\<close>

definition ScoreBar_barColor :: "real option \<Rightarrow> string" where
  "ScoreBar_barColor v =
     (case v of
        None \<Rightarrow> ''bg-muted''
      | Some x \<Rightarrow>
          if x \<ge> 70 then ''bg-green-500''
          else if x \<ge> 40 then ''bg-yellow-500''
          else ''bg-red-500'')"

definition ScoreBar_textColor :: "real option \<Rightarrow> string" where
  "ScoreBar_textColor v =
     (case v of
        None \<Rightarrow> ''text-muted-foreground''
      | Some x \<Rightarrow>
          if x \<ge> 70 then ''text-green-700''
          else if x \<ge> 40 then ''text-yellow-700''
          else ''text-red-700'')"

section \<open>Score bands\<close>

text \<open>
  The bands as the specification words them: green from 70, yellow from 40 and below 70, red
  below 40, neutral without a score. Each implementation has its own presentation of a band.
\<close>

datatype band = Neutral | Green | Yellow | Red

definition score_band :: "real option \<Rightarrow> band" where
  "score_band sc =
     (case sc of
        None \<Rightarrow> Neutral
      | Some s \<Rightarrow>
          if s \<ge> 70 then Green
          else if 40 \<le> s \<and> s < 70 then Yellow
          else Red)"

fun lib_text_class :: "band \<Rightarrow> string" where
  "lib_text_class Neutral = ''text-muted-foreground''"
| "lib_text_class Green = ''text-green-600''"
| "lib_text_class Yellow = ''text-yellow-600''"
| "lib_text_class Red = ''text-red-600''"

fun lib_bg_class :: "band \<Rightarrow> string" where
  "lib_bg_class Neutral = ''bg-muted''"
| "lib_bg_class Green = ''bg-green-100 text-green-800''"
| "lib_bg_class Yellow = ''bg-yellow-100 text-yellow-800''"
| "lib_bg_class Red = ''bg-red-100 text-red-800''"

fun popup_colors :: "band \<Rightarrow> string \<times> string" where
  "popup_colors Neutral = (''#e5e7eb'', ''#6b7280'')"
| "popup_colors Green = (''#dcfce7'', ''#166534'')"
| "popup_colors Yellow = (''#fef9c3'', ''#854d0e'')"
| "popup_colors Red = (''#fee2e2'', ''#991b1b'')"

fun bar_class :: "band \<Rightarrow> string" where
  "bar_class Neutral = ''bg-muted''"
| "bar_class Green = ''bg-green-500''"
| "bar_class Yellow = ''bg-yellow-500''"
| "bar_class Red = ''bg-red-500''"

fun bar_text_class :: "band \<Rightarrow> string" where
  "bar_text_class Neutral = ''text-muted-foreground''"
| "bar_text_class Green = ''text-green-700''"
| "bar_text_class Yellow = ''text-yellow-700''"
| "bar_text_class Red = ''text-red-700''"

text \<open>The popup badge of a band: the neutral badge shows N/A, a coloured one the number.\<close>

definition popup_badge :: "band \<Rightarrow> string \<Rightarrow> string" where
  \<open>popup_badge b shown =
     (if b = Neutral
      then ''<span style="display:inline-block;padding:2px 8px;border-radius:9999px;font-size:11px;background:''
           @ fst (popup_colors b) @ '';color:'' @ snd (popup_colors b) @ '';">N/A</span>''
      else ''<span style="display:inline-block;padding:2px 8px;border-radius:9999px;font-size:11px;font-weight:600;background:''
           @ fst (popup_colors b) @ '';color:'' @ snd (popup_colors b) @ '';">'' @ shown @ ''</span>'')\<close>

section \<open>api/types\<close>

record ScrapeJob =
  job_id :: string
  source_id :: string
  status :: string
  prefecture_code :: "string option"
  municipality_code :: "string option"
  listings_found :: int
  listings_new :: int
  listings_updated :: int
  error_message :: "string option"
  started_at :: "string option"
  completed_at :: "string option"
  created_at :: "string option"

record ScrapeSource =
  src_id :: string
  display_name :: string
  base_url :: "string option"
  is_enabled :: bool
  default_interval_hours :: int

section \<open>More platform functions\<close>

text \<open>
  Dates. \<open>now\<close> is \<open>Date.now()\<close> in milliseconds, \<open>date_parse\<close> is
  \<open>new Date(text).getTime()\<close>, with \<open>None\<close> for the NaN of a text that is no date, and
  \<open>date_format\<close> is the \<open>toLocaleString\<close> of the admin page's time stamps.
\<close>

record clock =
  now :: int
  date_parse :: "string \<Rightarrow> int option"
  date_format :: "string \<Rightarrow> string"

text \<open>
  What reading a property of an object literal gives: the object's own text, or what the
  object inherits from \<open>Object.prototype\<close> under that name (a native function, or the
  prototype object itself under \<open>__proto__\<close>), or undefined.
\<close>

datatype js_value = JsString string | JsNativeFunction string | JsObject | JsUndefined

definition object_prototype_get :: "string \<Rightarrow> js_value" where
  "object_prototype_get k =
     (if k = ''constructor'' then JsNativeFunction ''Object''
      else if k \<in> set [''hasOwnProperty'', ''isPrototypeOf'', ''propertyIsEnumerable'',
                        ''toLocaleString'', ''toString'', ''valueOf'', ''__defineGetter__'',
                        ''__defineSetter__'', ''__lookupGetter__'', ''__lookupSetter__'']
      then JsNativeFunction k
      else if k = ''__proto__'' then JsObject
      else JsUndefined)"

definition object_get :: "(string \<times> string) list \<Rightarrow> string \<Rightarrow> js_value" where
  "object_get obj k =
     (case map_of obj k of Some v \<Rightarrow> JsString v | None \<Rightarrow> object_prototype_get k)"

text \<open>The operator \<open>??\<close>: the right operand replaces undefined (and null) only.\<close>

definition nullish_or :: "js_value \<Rightarrow> js_value \<Rightarrow> js_value" where
  "nullish_or v d = (case v of JsUndefined \<Rightarrow> d | _ \<Rightarrow> v)"

text \<open>
  \<open>URLSearchParams\<close>: an ordered list of pairs. \<open>set\<close> overwrites the first pair of the name
  and removes the others, or appends; \<open>toString\<close> writes the pairs in the form encoding,
  where letters, digits and \<open>* - . _\<close> stay, a space becomes \<open>+\<close> and every other byte a
  percent escape.
\<close>

fun params_set :: "string \<Rightarrow> string \<Rightarrow> (string \<times> string) list \<Rightarrow> (string \<times> string) list" where
  "params_set k v [] = [(k, v)]"
| "params_set k v ((k', v') # ps) =
     (if k' = k then (k, v) # filter (\<lambda>kv. fst kv \<noteq> k) ps else (k', v') # params_set k v ps)"

definition form_unreserved :: "char \<Rightarrow> bool" where
  "form_unreserved c \<longleftrightarrow>
     c \<in> set ''ABCDEFGHIJKLMNOPQRSTUVWXYZabcdefghijklmnopqrstuvwxyz0123456789*-._''"

definition form_byte :: "char \<Rightarrow> string" where
  "form_byte c =
     (if c = CHR '' '' then ''+'' else if form_unreserved c then [c] else percent_encode c)"

definition form_encode :: "string \<Rightarrow> string" where
  "form_encode s = concat (map form_byte s)"

fun params_toString :: "(string \<times> string) list \<Rightarrow> string" where
  "params_toString [] = []"
| "params_toString [(k, v)] = form_encode k @ ''='' @ form_encode v"
| "params_toString ((k, v) # ps) = form_encode k @ ''='' @ form_encode v @ ''&'' @ params_toString ps"

section \<open>pages/ScrapingAdmin\<close>

definition PREFECTURES :: "(string \<times> string) list" where
  "PREFECTURES =
     [(''13'', ''Tokyo''), (''14'', ''Kanagawa''), (''27'', ''Osaka''), (''12'', ''Chiba''),
      (''11'', ''Saitama''), (''23'', ''Aichi''), (''26'', ''Kyoto''), (''28'', ''Hyogo'')]"

text \<open>
  \<open>StatusBadge\<close>: the style is read from an object literal under the status, with a fallback
  behind \<open>??\<close>; the template of the class name then converts the value to text. The badge
  shows a ping dot for a running Job, and the status itself.
\<close>

definition styles :: "(string \<times> string) list" where
  "styles =
     [(''pending'', ''bg-gray-100 text-gray-700''),
      (''running'', ''bg-blue-100 text-blue-700 animate-pulse''),
      (''completed'', ''bg-green-100 text-green-800''),
      (''failed'', ''bg-red-100 text-red-800'')]"

definition StatusBadge_style :: "string \<Rightarrow> js_value" where
  "StatusBadge_style st = nullish_or (object_get styles st) (JsString ''bg-gray-100 text-gray-700'')"

definition StatusBadge_ping :: "string \<Rightarrow> bool" where
  "StatusBadge_ping st \<longleftrightarrow> st = ''running''"

definition StatusBadge_text :: "string \<Rightarrow> string" where
  "StatusBadge_text st = st"

text \<open>\<open>formatDuration\<close>: \<open>Math.round\<close> rounds a half upwards.\<close>

definition formatDuration :: "clock \<Rightarrow> string option \<Rightarrow> string option \<Rightarrow> string" where
  "formatDuration clk start end' =
     (case start of
        None \<Rightarrow> ''-''
      | Some st \<Rightarrow>
          if st = [] then ''-''
          else
            (let s = date_parse clk st;
                 e = (case end' of
                        None \<Rightarrow> Some (now clk)
                      | Some en \<Rightarrow> if en = [] then Some (now clk) else date_parse clk en)
             in case (s, e) of
                  (Some s', Some e') \<Rightarrow>
                    (let seconds = (e' - s' + 500) div 1000
                     in if seconds < 60 then int_str seconds @ ''s''
                        else int_str (seconds div 60) @ ''m '' @ int_str (seconds mod 60) @ ''s'')
                | _ \<Rightarrow> ''NaNm NaNs''))"

text \<open>\<open>formatTimestamp\<close>.\<close>

definition formatTimestamp :: "clock \<Rightarrow> string option \<Rightarrow> string" where
  "formatTimestamp clk ts =
     (case ts of None \<Rightarrow> ''-'' | Some t \<Rightarrow> if t = [] then ''-'' else date_format clk t)"

text \<open>
  The state of the page (\<open>useState\<close>), with the pending flag of the \<open>createJob\<close> mutation.
\<close>

record admin_state =
  selectedSource :: string
  selectedPrefecture :: string
  schedulerInterval :: real
  jobStatusFilter :: string
  jobSourceFilter :: string
  createJob_isPending :: bool

definition initial_admin_state :: admin_state where
  "initial_admin_state =
     \<lparr>selectedSource = [], selectedPrefecture = [], schedulerInterval = 6,
      jobStatusFilter = [], jobSourceFilter = [], createJob_isPending = False\<rparr>"

text \<open>
  The jobs query: the parameters start from \<open>limit=50\<close>; a filter is set when its text is
  not empty.
\<close>

definition jobs_query_params :: "admin_state \<Rightarrow> (string \<times> string) list" where
  "jobs_query_params st =
     (let params = [(''limit'', ''50'')];
          params = (if jobStatusFilter st \<noteq> [] then params_set ''status'' (jobStatusFilter st) params
                    else params);
          params = (if jobSourceFilter st \<noteq> [] then params_set ''source_id'' (jobSourceFilter st) params
                    else params)
      in params)"

definition jobs_query_url :: "admin_state \<Rightarrow> string" where
  "jobs_query_url st = ''/scraping/jobs?'' @ params_toString (jobs_query_params st)"

text \<open>
  A request of \<open>api.post\<close>: the URL and the fields of the JSON body.
\<close>

record post_request =
  url :: string
  body :: "(string \<times> string) list"

definition createJob_mutationFn :: "(string \<times> string) list \<Rightarrow> post_request" where
  "createJob_mutationFn data = \<lparr>url = ''/scraping/jobs'', body = data\<rparr>"

definition startScheduler_mutationFn :: "platform \<Rightarrow> real \<Rightarrow> post_request" where
  "startScheduler_mutationFn pf intervalHours =
     \<lparr>url = ''/scraping/scheduler/start?interval_hours='' @ num_str pf intervalHours, body = []\<rparr>"

definition stopScheduler_mutationFn :: post_request where
  "stopScheduler_mutationFn = \<lparr>url = ''/scraping/scheduler/stop'', body = []\<rparr>"

text \<open>
  The options of the source select, each with its value and its \<open>disabled\<close> attribute, and
  those of the prefecture select and of the status filter. Without the list of sources
  (still loading) only the placeholder is there.
\<close>

definition source_options :: "ScrapeSource list option \<Rightarrow> (string \<times> bool) list" where
  "source_options sources =
     ([], False) # (case sources of None \<Rightarrow> [] | Some ss \<Rightarrow> map (\<lambda>s. (src_id s, \<not> is_enabled s)) ss)"

definition prefecture_options :: "string list" where
  "prefecture_options = [] # map fst PREFECTURES"

definition status_filter_options :: "(string \<times> string) list" where
  "status_filter_options =
     [([], ''All statuses''), (''pending'', ''Pending''), (''running'', ''Running''),
      (''completed'', ''Completed''), (''failed'', ''Failed'')]"

text \<open>
  The Start Scrape button: disabled without a source or while the mutation is pending; its
  handler returns without a source, and otherwise sends the source, and the prefecture when
  one is selected (the spread of an empty text adds no field).
\<close>

definition startScrape_disabled :: "admin_state \<Rightarrow> bool" where
  "startScrape_disabled st \<longleftrightarrow> selectedSource st = [] \<or> createJob_isPending st"

definition startScrape_onClick :: "admin_state \<Rightarrow> post_request option" where
  "startScrape_onClick st =
     (if selectedSource st = [] then None
      else Some (createJob_mutationFn
             ((''source_id'', selectedSource st)
              # (if selectedPrefecture st \<noteq> [] then [(''prefecture_code'', selectedPrefecture st)]
                 else []))))"

definition startScheduler_onClick :: "platform \<Rightarrow> admin_state \<Rightarrow> post_request" where
  "startScheduler_onClick pf st = startScheduler_mutationFn pf (schedulerInterval st)"

definition stopScheduler_onClick :: post_request where
  "stopScheduler_onClick = stopScheduler_mutationFn"

text \<open>
  What happens on the page. A select changes to an option that is there and not disabled
  (the browser offers no other); a click reaches the handler of a button that is not
  disabled; the success of \<open>createJob\<close> clears both selections.
\<close>

datatype admin_event =
    ChooseSource string
  | ChoosePrefecture string
  | SetInterval real
  | ClickStartScrape
  | CreateJobSuccess
  | CreateJobError

fun admin_step ::
  "ScrapeSource list option \<Rightarrow> admin_state \<Rightarrow> admin_event \<Rightarrow> admin_state \<times> post_request list" where
  "admin_step sources st (ChooseSource v) =
     (if (v, False) \<in> set (source_options sources) then (st\<lparr>selectedSource := v\<rparr>, []) else (st, []))"
| "admin_step sources st (ChoosePrefecture v) =
     (if v \<in> set prefecture_options then (st\<lparr>selectedPrefecture := v\<rparr>, []) else (st, []))"
| "admin_step sources st (SetInterval n) = (st\<lparr>schedulerInterval := n\<rparr>, [])"
| "admin_step sources st ClickStartScrape =
     (if startScrape_disabled st then (st, [])
      else case startScrape_onClick st of
             None \<Rightarrow> (st, [])
           | Some r \<Rightarrow> (st\<lparr>createJob_isPending := True\<rparr>, [r]))"
| "admin_step sources st CreateJobSuccess =
     (st\<lparr>selectedSource := [], selectedPrefecture := [], createJob_isPending := False\<rparr>, [])"
| "admin_step sources st CreateJobError = (st\<lparr>createJob_isPending := False\<rparr>, [])"

text \<open>
  A run of the page. The list of sources is the answer of a query, none while it loads and
  another one after every refetch, so each event comes with the answer that the page holds
  at that moment. The selection stays as it is when the answer changes.
\<close>

fun admin_run ::
  "admin_state \<Rightarrow> (ScrapeSource list option \<times> admin_event) list \<Rightarrow> admin_state \<times> post_request list" where
  "admin_run st [] = (st, [])"
| "admin_run st ((sources, e) # es) =
     (let (st', out) = admin_step sources st e;
          (st'', outs) = admin_run st' es
      in (st'', out @ outs))"

text \<open>
  The jobs table: the header, and the text of the nine cells of a row. The name of a source
  comes from a \<open>Map\<close> built from the list of sources, where a later entry of the same id
  wins, and shortened by \<open>slice\<close> where the list has none (an id is ASCII text, so that
  bytes are the positions \<open>slice\<close> counts); the error cell also carries the message in its
  \<open>title\<close>, and its class \<open>truncate\<close> cuts off on screen what is too wide.
\<close>

definition jobs_table_header :: "string list" where
  "jobs_table_header =
     [''Source'', ''Status'', ''Prefecture'', ''Found'', ''New'', ''Updated'', ''Started'',
      ''Duration'', ''Error'']"

definition sourceNameMap :: "ScrapeSource list option \<Rightarrow> string \<Rightarrow> string option" where
  "sourceNameMap sources =
     (case sources of
        None \<Rightarrow> Map.empty
      | Some ss \<Rightarrow> map_of (rev (map (\<lambda>s. (src_id s, display_name s)) ss)))"

definition prefectureNameMap :: "string \<Rightarrow> string option" where
  "prefectureNameMap = map_of (rev PREFECTURES)"

definition job_row :: "clock \<Rightarrow> ScrapeSource list option \<Rightarrow> ScrapeJob \<Rightarrow> string list" where
  "job_row clk sources j =
     [case sourceNameMap sources (source_id j) of Some n \<Rightarrow> n | None \<Rightarrow> take 8 (source_id j),
      StatusBadge_text (status j),
      (case prefecture_code j of
         None \<Rightarrow> ''-''
       | Some c \<Rightarrow>
           if c = [] then ''-''
           else (case prefectureNameMap c of Some n \<Rightarrow> n | None \<Rightarrow> []) @ '' ('' @ c @ '')''),
      int_str (listings_found j),
      (if listings_new j > 0 then ''+'' @ int_str (listings_new j) else int_str (listings_new j)),
      (if listings_updated j > 0 then ''~'' @ int_str (listings_updated j)
       else int_str (listings_updated j)),
      formatTimestamp clk (case started_at j of Some t \<Rightarrow> Some t | None \<Rightarrow> created_at j),
      (if status j = ''running'' then formatDuration clk (started_at j) None
       else formatDuration clk (started_at j) (completed_at j)),
      (case error_message j of None \<Rightarrow> ''-'' | Some m \<Rightarrow> if m = [] then ''-'' else m)]"

definition error_cell_title :: "ScrapeJob \<Rightarrow> string option" where
  "error_cell_title j = error_message j"

section \<open>pages/Dashboard\<close>

text \<open>\<open>timeAgo\<close>; a text that is no date gives NaN, which fails every comparison.\<close>

definition timeAgo :: "clock \<Rightarrow> string option \<Rightarrow> string" where
  "timeAgo clk dateStr =
     (case dateStr of
        None \<Rightarrow> ''-''
      | Some d \<Rightarrow>
          if d = [] then ''-''
          else
            (case date_parse clk d of
               None \<Rightarrow> ''NaNmo ago''
             | Some t \<Rightarrow>
                 (let seconds = (now clk - t) div 1000 in
                  if seconds < 0 then ''just now''
                  else if seconds < 60 then int_str seconds @ ''s ago''
                  else
                    (let minutes = seconds div 60 in
                     if minutes < 60 then int_str minutes @ ''m ago''
                     else
                       (let hours = minutes div 60 in
                        if hours < 24 then int_str hours @ ''h ago''
                        else
                          (let days = hours div 24 in
                           if days < 30 then int_str days @ ''d ago''
                           else int_str (days div 30) @ ''mo ago''))))))"

text \<open>
  The request of the recent jobs, and the values derived from its answer (undefined while
  the answer is not there).
\<close>

definition recentJobs_url :: string where
  "recentJobs_url = ''/scraping/jobs?limit=5''"

definition runningSources :: "ScrapeJob list option \<Rightarrow> nat" where
  "runningSources recentJobs =
     (case recentJobs of None \<Rightarrow> 0 | Some js \<Rightarrow> length (filter (\<lambda>j. status j = ''running'') js))"

definition lastCompletedJob :: "ScrapeJob list option \<Rightarrow> ScrapeJob option" where
  "lastCompletedJob recentJobs =
     (case recentJobs of None \<Rightarrow> None | Some js \<Rightarrow> find (\<lambda>j. status j = ''completed'') js)"

definition hasRunningJobs :: "ScrapeJob list option \<Rightarrow> bool" where
  "hasRunningJobs recentJobs \<longleftrightarrow> runningSources recentJobs > 0"

text \<open>The Last Scrape line, and the line of the property count (\<open>total\<close> of the properties).\<close>

definition last_scrape :: "clock \<Rightarrow> ScrapeJob list option \<Rightarrow> string" where
  "last_scrape clk recentJobs =
     (if hasRunningJobs recentJobs then ''Running now''
      else
        (case lastCompletedJob recentJobs of
           None \<Rightarrow> ''Never''
         | Some j \<Rightarrow>
             (case completed_at j of
                None \<Rightarrow> ''Never''
              | Some t \<Rightarrow> if t \<noteq> [] then timeAgo clk (completed_at j) else ''Never'')))"

definition property_count_line :: "int option \<Rightarrow> string" where
  "property_count_line properties_total =
     (case properties_total of None \<Rightarrow> ''-'' | Some n \<Rightarrow> int_str n) @ '' properties''"

section \<open>Escaping, as the specification words it\<close>

text \<open>
  Every occurrence of one of the five characters is replaced by its HTML entity, all at once;
  any other character stays.
\<close>

definition html_entity :: "char \<Rightarrow> string" where
  "html_entity c =
     (if c = CHR ''&'' then ''&amp;''
      else if c = CHR ''<'' then ''&lt;''
      else if c = CHR ''>'' then ''&gt;''
      else if c = CHR 0x22 then ''&quot;''
      else if c = CHR 0x27 then ''&#039;''
      else [c])"

text \<open>
  The floor plan the popup shows, and the markup of the popup around three texts that are
  already escaped: the address, the floor plan and the identifier in the link. The frame
  takes the other fields as they are.
\<close>

definition floor_plan_shown :: "string option \<Rightarrow> string option" where
  "floor_plan_shown fp = (case fp of None \<Rightarrow> None | Some t \<Rightarrow> if t = [] then None else Some t)"

definition popup_frame ::
  "platform \<Rightarrow> int option \<Rightarrow> real option \<Rightarrow> real option \<Rightarrow> int option \<Rightarrow> bool option
     \<Rightarrow> string \<Rightarrow> string option \<Rightarrow> string \<Rightarrow> string" where
  \<open>popup_frame pf pr sc area yr rb address_html plan_html link_id =
     ''<div style="font-family:system-ui,-apple-system,sans-serif;min-width:220px;max-width:300px;font-size:13px;line-height:1.5;">''
     @ ''<div style="font-weight:700;font-size:14px;margin-bottom:6px;color:#111827;">'' @ address_html @ ''</div>''
     @ ''<div style="display:flex;align-items:center;gap:8px;margin-bottom:6px;">''
     @ ''<span style="font-size:15px;font-weight:700;color:#7c3aed;">'' @ formatPrice pf pr @ ''</span>''
     @ scoreBadge (num_str pf) sc
     @ ''</div>''
     @ ''<table style="width:100%;border-collapse:collapse;margin-bottom:8px;">''
     @ (case plan_html of None \<Rightarrow> [] | Some h \<Rightarrow> tableRow ''Floor Plan'' h)
     @ (case area of None \<Rightarrow> [] | Some a \<Rightarrow> tableRow ''Land Area'' (to_fixed1 pf a @ ''m&sup2;''))
     @ (case yr of None \<Rightarrow> [] | Some y \<Rightarrow> tableRow ''Year Built'' (int_str y))
     @ tableRow ''Rebuild'' (rebuildLabel rb)
     @ ''</table>''
     @ ''<a href="/property/'' @ link_id
     @ ''" style="display:inline-block;margin-top:4px;font-size:12px;color:#2563eb;text-decoration:none;font-weight:500;">View details &rarr;</a>''
     @ ''</div>''\<close>

section \<open>Notions of the specification about the admin page\<close>



text \<open>The cell of a row of the jobs table under a column of the header.\<close>

definition job_cell ::
  "clock \<Rightarrow> ScrapeSource list option \<Rightarrow> ScrapeJob \<Rightarrow> string \<Rightarrow> string option" where
  "job_cell clk sources j column = map_of (zip jobs_table_header (job_row clk sources j)) column"

text \<open>The query string of a URL: what follows the first question mark.\<close>

definition query_string :: "string \<Rightarrow> string option" where
  "query_string u = (case dropWhile (\<lambda>c. c \<noteq> CHR ''?'') u of [] \<Rightarrow> None | _ # q \<Rightarrow> Some q)"

section \<open>The en-US locale\<close>

text \<open>
  How a runtime whose default locale is en-US writes an integral number with
  \<open>toLocaleString()\<close>: ASCII digits, from four digits on in groups of three from the right
  with commas between the groups, a minus sign before a negative number. (Negative zero,
  which it writes \<open>-0\<close>, is no \<^typ>\<open>int\<close>.) The platform \<open>en_US\<close> writes integral numbers so;
  how it writes a fraction is left empty, the examples are whole amounts.
\<close>

fun enUS_groups :: "string \<Rightarrow> string" where
  "enUS_groups ds =
     (if length ds \<le> 3 then ds
      else enUS_groups (take (length ds - 3) ds) @ '','' @ drop (length ds - 3) ds)"

declare enUS_groups.simps [simp del]

definition toLocaleString_enUS :: "int \<Rightarrow> string" where
  "toLocaleString_enUS i =
     (if i < 0 then ''-'' @ enUS_groups (nat_str (nat (- i))) else enUS_groups (nat_str (nat i)))"

definition en_US :: platform where
  "en_US =
     \<lparr>num_str = (\<lambda>_. []), to_fixed1 = (\<lambda>_. []), to_locale1 = (\<lambda>_. []),
      to_locale_int = toLocaleString_enUS\<rparr>"

section \<open>Example data\<close>

definition suumo :: ScrapeSource where
  "suumo = \<lparr>src_id = ''suumo'', display_name = ''SUUMO'', base_url = None, is_enabled = True,
            default_interval_hours = 24\<rparr>"


definition suumo_disabled :: ScrapeSource where
  "suumo_disabled = suumo\<lparr>is_enabled := False\<rparr>"


text \<open>
  A clock at 10:00:05 on the first of May 2024 that knows three time stamps; how a time
  stamp is formatted plays no part in the examples.
\<close>

definition clock0 :: clock where
  "clock0 =
     \<lparr>now = 1714557605000,
      date_parse = map_of [(''2024-05-01T09:00:00Z'', 1714554000000),
                           (''2024-05-01T09:05:00Z'', 1714554300000),
                           (''2024-05-01T10:00:00Z'', 1714557600000)],
      date_format = (\<lambda>t. t)\<rparr>"

definition job0 :: ScrapeJob where
  "job0 = \<lparr>job_id = ''j1'', source_id = ''suumo'', status = ''failed'', prefecture_code = Some ''13'',
           municipality_code = None, listings_found = 3, listings_new = 2, listings_updated = 0,
           error_message = Some ''HTTP 403'', started_at = None, completed_at = None,
           created_at = None\<rparr>"

definition job_empty_message :: ScrapeJob where
  "job_empty_message = job0\<lparr>error_message := Some []\<rparr>"

definition job2 :: ScrapeJob where
  "job2 = job0\<lparr>status := ''completed'', error_message := None\<rparr>"

definition job_running :: ScrapeJob where
  "job_running = job0\<lparr>job_id := ''j3'', status := ''running'', error_message := None,
                    started_at := Some ''2024-05-01T10:00:00Z''\<rparr>"

definition job_completed :: ScrapeJob where
  "job_completed = job0\<lparr>job_id := ''j2'', status := ''completed'', error_message := None,
                      started_at := Some ''2024-05-01T09:00:00Z'',
                      completed_at := Some ''2024-05-01T09:05:00Z''\<rparr>"

section \<open>The score bands of the three implementations\<close>

lemma band_presentations_injective:
  "inj lib_text_class" "inj lib_bg_class" "inj popup_colors" "inj bar_class" "inj bar_text_class"
proof -
  have "b = b'" if "lib_text_class b = lib_text_class b'" for b b'
    using that by (cases b; cases b') simp_all
  then show "inj lib_text_class" by (auto intro: injI)
  have "b = b'" if "lib_bg_class b = lib_bg_class b'" for b b'
    using that by (cases b; cases b') simp_all
  then show "inj lib_bg_class" by (auto intro: injI)
  have "b = b'" if "popup_colors b = popup_colors b'" for b b'
    using that by (cases b; cases b') simp_all
  then show "inj popup_colors" by (auto intro: injI)
  have "b = b'" if "bar_class b = bar_class b'" for b b'
    using that by (cases b; cases b') simp_all
  then show "inj bar_class" by (auto intro: injI)
  have "b = b'" if "bar_text_class b = bar_text_class b'" for b b'
    using that by (cases b; cases b') simp_all
  then show "inj bar_text_class" by (auto intro: injI)
qed

lemma scoreBadge_colors_band: "scoreBadge_colors s = popup_colors (score_band (Some s))"
  by (simp add: scoreBadge_colors_def score_band_def)

text \<open>
  C9. For every composite score, null included, the formatting library (\<open>getScoreColor\<close>,
  \<open>getScoreBgColor\<close>), the popup badge and the score bar of the detail page present the score
  in one and the same band, and that band is the specified one: green from 70, yellow from 40
  to below 70, red below 40, neutral for null.
\<close>

theorem score_banding_agrees:
  "getScoreColor sc = lib_text_class (score_band sc)
   \<and> getScoreBgColor sc = lib_bg_class (score_band sc)
   \<and> scoreBadge show_num sc = popup_badge (score_band sc) (case_option [] show_num sc)
   \<and> ScoreBar_barColor sc = bar_class (score_band sc)
   \<and> ScoreBar_textColor sc = bar_text_class (score_band sc)"
proof (cases sc)
  case None
  then show ?thesis
    by (simp add: getScoreColor_def getScoreBgColor_def scoreBadge_def popup_badge_def
        ScoreBar_barColor_def ScoreBar_textColor_def score_band_def)
next
  case (Some s)
  consider "s \<ge> 70" | "40 \<le> s" "s < 70" | "s < 40" by linarith
  then show ?thesis
  proof cases
    case 1
    with Some show ?thesis
      by (simp add: getScoreColor_def getScoreBgColor_def scoreBadge_def popup_badge_def
          scoreBadge_colors_def ScoreBar_barColor_def ScoreBar_textColor_def score_band_def)
  next
    case 2
    with Some show ?thesis
      by (simp add: getScoreColor_def getScoreBgColor_def scoreBadge_def popup_badge_def
          scoreBadge_colors_def ScoreBar_barColor_def ScoreBar_textColor_def score_band_def)
  next
    case 3
    with Some show ?thesis
      by (simp add: getScoreColor_def getScoreBgColor_def scoreBadge_def popup_badge_def
          scoreBadge_colors_def ScoreBar_barColor_def ScoreBar_textColor_def score_band_def)
  qed
qed

section \<open>The popup never embeds listing text as raw markup\<close>

lemma replace_all_append: "replace_all c r (a @ b) = replace_all c r a @ replace_all c r b"
  by (simp add: replace_all_def)

lemma replace_all_Nil: "replace_all c r [] = []"
  by (simp add: replace_all_def)

lemma replace_all_Cons: "replace_all c r (x # xs) = (if x = c then r else [x]) @ replace_all c r xs"
  by (simp add: replace_all_def)

lemma escapeHtml_Cons: "escapeHtml (x # xs) = html_entity x @ escapeHtml xs"
  by (simp add: escapeHtml_def html_entity_def replace_all_Cons replace_all_append replace_all_Nil)

lemma escapeHtml_entities: "escapeHtml s = concat (map html_entity s)"
proof (induction s)
  case Nil
  show ?case by (simp add: escapeHtml_def replace_all_Nil)
next
  case (Cons x xs)
  then show ?case by (simp add: escapeHtml_Cons)
qed

lemma html_entity_safe: "set (html_entity c) \<inter> {CHR ''<'', CHR ''>'', CHR 0x22, CHR 0x27} = {}"
  by (simp add: html_entity_def)

lemma escapeHtml_safe: "set (escapeHtml s) \<inter> {CHR ''<'', CHR ''>'', CHR 0x22, CHR 0x27} = {}"
proof -
  have "set (concat (map html_entity s)) \<inter> {CHR ''<'', CHR ''>'', CHR 0x22, CHR 0x27} = {}"
    using html_entity_safe by (induction s) (auto simp: Int_Un_distrib2)
  then show ?thesis by (simp add: escapeHtml_entities)
qed

lemma hex_digit_unreserved: "n < 16 \<Longrightarrow> uri_unreserved (''0123456789ABCDEF'' ! n)"
proof -
  assume "n < 16"
  then have "n \<in> {0,1,2,3,4,5,6,7,8,9,10,11,12,13,14,15}" by simp arith
  then show ?thesis by (auto simp: uri_unreserved_def)
qed

lemma uri_byte_chars: "set (uri_byte c) \<subseteq> insert CHR ''%'' (Collect uri_unreserved)"
proof -
  have "(of_char c :: nat) div 16 < 16" by (rule less_mult_imp_div_less) simp
  moreover have "(of_char c :: nat) mod 16 < 16" by simp
  ultimately show ?thesis
    by (simp add: uri_byte_def percent_encode_def hex_digit_unreserved)
qed

lemma encodeURIComponent_chars: "set (encodeURIComponent s) \<subseteq> insert CHR ''%'' (Collect uri_unreserved)"
  using uri_byte_chars by (induction s) (auto simp: encodeURIComponent_def)

lemma createPopupHTML_frame:
  "createPopupHTML pf p =
     popup_frame pf (price p) (score p) (land_area p) (year_built p) (rebuild_possible p)
       (escapeHtml (address p)) (map_option escapeHtml (floor_plan_shown (floor_plan p)))
       (encodeURIComponent (popup_id p))"
proof -
  have rows_snoc: "(r # rs) @ qs = r # (rs @ qs)" "[] @ qs = qs" for r :: string and rs qs
    by simp_all
  consider (none) "floor_plan p = None" | (empty) "floor_plan p = Some []"
    | (shown) t where "floor_plan p = Some t" "t \<noteq> []"
    by (cases "floor_plan p") auto
  then show ?thesis
  proof cases
    case none
    then show ?thesis
      unfolding createPopupHTML_def popup_frame_def floor_plan_shown_def Let_def
      by (cases "land_area p"; cases "year_built p")
         (simp_all only: option.case option.map rows_snoc concat.simps append_assoc append_Nil2
            append_Nil)
  next
    case empty
    then show ?thesis
      unfolding createPopupHTML_def popup_frame_def floor_plan_shown_def Let_def
      by (cases "land_area p"; cases "year_built p")
         (simp_all only: option.case option.map rows_snoc concat.simps append_assoc append_Nil2
            append_Nil simp_thms if_True if_False)
  next
    case shown
    then show ?thesis
      unfolding createPopupHTML_def popup_frame_def floor_plan_shown_def Let_def
      by (cases "land_area p"; cases "year_built p")
         (simp_all only: option.case option.map rows_snoc concat.simps append_assoc append_Nil2
            append_Nil simp_thms if_True if_False)
  qed
qed

text \<open>
  C8. For every property feature the popup markup is the frame around the escaped address,
  the escaped floor plan (when one is shown) and the URI-encoded identifier: \<open>escapeHtml\<close>
  replaces every occurrence of \<open>&\<close>, \<open><\<close>, \<open>>\<close>, the double quote and the single quote by its
  HTML entity, so that none of \<open><\<close>, \<open>>\<close> and the quotes is left in the escaped text, and the
  identifier in the link consists of unreserved characters and percent escapes only.
\<close>

theorem createPopupHTML_escapes:
  "createPopupHTML pf p =
     popup_frame pf (price p) (score p) (land_area p) (year_built p) (rebuild_possible p)
       (concat (map html_entity (address p)))
       (map_option (\<lambda>t. concat (map html_entity t)) (floor_plan_shown (floor_plan p)))
       (encodeURIComponent (popup_id p))
   \<and> escapeHtml t = concat (map html_entity t)
   \<and> set (escapeHtml t) \<inter> {CHR ''<'', CHR ''>'', CHR 0x22, CHR 0x27} = {}
   \<and> set (encodeURIComponent t) \<subseteq> insert CHR ''%'' (Collect uri_unreserved)"
proof -
  have "map_option escapeHtml x = map_option (\<lambda>t. concat (map html_entity t)) x" for x
    by (cases x) (simp_all add: escapeHtml_entities)
  then show ?thesis
    by (simp add: createPopupHTML_frame escapeHtml_entities [symmetric] escapeHtml_safe
        encodeURIComponent_chars)
qed

section \<open>The two man-yen formats\<close>

lemma nat_str_length_small: "n < 1000 \<Longrightarrow> length (nat_str n) \<le> 3"
proof -
  assume n: "n < 1000"
  have a: "length (nat_str k) = 1" if "k < 10" for k
    using that by (subst nat_str.simps) simp
  have b: "length (nat_str k) \<le> 2" if "k < 100" for k
    using that a [of "k div 10"] by (subst nat_str.simps) auto
  show ?thesis
    using n b [of "n div 10"] a[of n] by (subst nat_str.simps) auto
qed

lemma nat_str_length_pos: "0 < length (nat_str n)"
  by (subst nat_str.simps) simp

lemma nat_str_length_large: "1000 \<le> n \<Longrightarrow> 4 \<le> length (nat_str n)"
proof -
  assume n: "1000 \<le> n"
  have a: "2 \<le> length (nat_str k)" if "10 \<le> k" for k
    using that nat_str_length_pos [of "k div 10"] by (subst nat_str.simps) (simp add: Suc_le_eq)
  have b: "3 \<le> length (nat_str k)" if "100 \<le> k" for k
    using that a [of "k div 10"] by (subst nat_str.simps) auto
  show ?thesis
    using n b [of "n div 10"] by (subst nat_str.simps) auto
qed

lemma enUS_groups_short: "length ds \<le> 3 \<Longrightarrow> enUS_groups ds = ds"
  by (subst enUS_groups.simps) simp

lemma enUS_groups_length: "length ds \<le> length (enUS_groups ds)"
proof (induction ds rule: enUS_groups.induct)
  case (1 ds)
  show ?case
  proof (cases "length ds \<le> 3")
    case True
    then show ?thesis by (simp add: enUS_groups_short)
  next
    case False
    with 1 show ?thesis
      by (subst enUS_groups.simps) auto
  qed
qed

lemma enUS_groups_long: "3 < length ds \<Longrightarrow> length ds < length (enUS_groups ds)"
proof -
  assume l: "3 < length ds"
  have "length (take (length ds - 3) ds) \<le> length (enUS_groups (take (length ds - 3) ds))"
    by (rule enUS_groups_length)
  then show ?thesis
    using l by (subst enUS_groups.simps) auto
qed

lemma toLocaleString_enUS_small: "\<bar>i\<bar> < 1000 \<Longrightarrow> toLocaleString_enUS i = int_str i"
  by (simp add: toLocaleString_enUS_def int_str_def enUS_groups_short nat_str_length_small)

lemma toLocaleString_enUS_large:
  assumes "1000 \<le> \<bar>i\<bar>"
  shows "length (int_str i) < length (toLocaleString_enUS i)"
proof -
  have "1000 \<le> nat \<bar>i\<bar>" using assms by linarith
  then have "3 < length (nat_str (nat \<bar>i\<bar>))"
    using nat_str_length_large [of "nat \<bar>i\<bar>"] by linarith
  then have "length (nat_str (nat \<bar>i\<bar>)) < length (enUS_groups (nat_str (nat \<bar>i\<bar>)))"
    by (rule enUS_groups_long)
  then show ?thesis
    by (auto simp: toLocaleString_enUS_def int_str_def abs_if split: if_splits)
qed

text \<open>
  C10, as stated: for every yen amount the popup's \<open>formatPrice\<close> and the library's
  \<open>formatManYen\<close> give the same text. At 15 000 000 yen, in a runtime whose default locale
  is en-US, the popup writes 1,500 and the library writes 1500.
\<close>

theorem formatPrice_formatManYen_differ:
  "formatPrice en_US (Some 15000000) = ''1,500'' @ man_yen
   \<and> formatManYen en_US 15000000 = ''1500'' @ man_yen
   \<and> formatPrice en_US (Some 15000000) \<noteq> formatManYen en_US 15000000"
  by (simp add: formatPrice_def formatManYen_def en_US_def toLocaleString_enUS_def
      int_str_def nat_str.simps enUS_groups.simps)

text \<open>
  C10, amended. In a runtime whose default locale writes integral numbers as en-US does,
  for every positive yen amount that is a whole number of man-yen (a multiple of 10 000),
  the two formats give the same text exactly when the amount is below 10 000 000 yen
  (fewer than four digits of man-yen). Nothing is said of other locales, nor of amounts
  that are not a whole number of man-yen.
\<close>

theorem formatPrice_formatManYen_enUS:
  assumes "to_locale_int pf = toLocaleString_enUS" and "0 < amount" and "10000 dvd amount"
  shows "formatPrice pf (Some amount) = formatManYen pf amount \<longleftrightarrow> amount < 10000000"
proof (cases "amount < 10000000")
  case True
  with assms(2,3) have "\<bar>amount div 10000\<bar> < 1000" by auto
  then have "toLocaleString_enUS (amount div 10000) = int_str (amount div 10000)"
    by (rule toLocaleString_enUS_small)
  with True assms(1,3) show ?thesis
    by (simp add: formatPrice_def formatManYen_def)
next
  case False
  with assms(2,3) have "1000 \<le> \<bar>amount div 10000\<bar>" by auto
  then have "length (int_str (amount div 10000))
      < length (toLocaleString_enUS (amount div 10000))"
    by (rule toLocaleString_enUS_large)
  then have "toLocaleString_enUS (amount div 10000) \<noteq> int_str (amount div 10000)"
    by auto
  with False assms(1,3) show ?thesis
    by (simp add: formatPrice_def formatManYen_def)
qed

theorem formatPrice_formatManYen_enUS_witness:
  "to_locale_int en_US = toLocaleString_enUS
   \<and> (0::int) < 5000000 \<and> (10000::int) dvd 5000000 \<and> (5000000::int) < 10000000
   \<and> formatPrice en_US (Some 5000000) = formatManYen en_US 5000000
   \<and> (0::int) < 20000000 \<and> (10000::int) dvd 20000000 \<and> \<not> (20000000::int) < 10000000
   \<and> formatPrice en_US (Some 20000000) \<noteq> formatManYen en_US 20000000"
proof -
  have l: "to_locale_int en_US = toLocaleString_enUS"
    by (simp add: en_US_def)
  have a: "formatPrice en_US (Some 5000000) = formatManYen en_US 5000000"
    using formatPrice_formatManYen_enUS [OF l, of 5000000] by simp
  have b: "formatPrice en_US (Some 20000000) \<noteq> formatManYen en_US 20000000"
    using formatPrice_formatManYen_enUS [OF l, of 20000000] by simp
  from l a b show ?thesis by simp
qed

section \<open>The health lines of the dashboard\<close>

lemma hasRunningJobs_iff:
  "hasRunningJobs (Some jobs) \<longleftrightarrow> (\<exists>j \<in> set jobs. status j = ''running'')"
  by (simp add: hasRunningJobs_def runningSources_def filter_empty_conv)

lemma find_first:
  assumes "\<forall>x \<in> set pre. \<not> P x" "P y"
  shows "find P (pre @ y # post) = Some y"
  using assms by (induction pre) auto

lemma find_none: "(\<forall>x \<in> set xs. \<not> P x) \<Longrightarrow> find P xs = None"
  by (induction xs) auto

text \<open>
  C1, as stated: for every list of Jobs that the query returns, the Last Scrape line is the
  completion time of the most recent completed Job. With a running Job before a completed
  one the line reads Running now, not the age of the completion.
\<close>

theorem last_scrape_running_now:
  "last_scrape clock0 (Some [job_running, job_completed]) = ''Running now''
   \<and> find (\<lambda>j. status j = ''completed'') [job_running, job_completed] = Some job_completed
   \<and> timeAgo clock0 (completed_at job_completed) = ''55m ago''"
  by (simp add: last_scrape_def hasRunningJobs_def runningSources_def job_running_def
      job_completed_def job0_def timeAgo_def clock0_def int_str_def nat_str.simps)

text \<open>
  C1, amended. Among the Jobs that the query returned (the 5 most recent at most): a Job
  counts as running exactly when one of them has the status running, and then the Last
  Scrape line reads Running now; when none is running, the line is the age (\<open>timeAgo\<close>) of the
  completion time of the first completed Job of the list when that Job has one, and Never
  when it has none, when the list has no completed Job or when the list is not there yet.
  The property line shows the total of the property query, or a dash before the answer.
\<close>

theorem dashboard_health:
  "(hasRunningJobs (Some jobs) \<longleftrightarrow> (\<exists>j \<in> set jobs. status j = ''running''))
   \<and> (hasRunningJobs recentJobs \<longrightarrow> last_scrape clk recentJobs = ''Running now'')
   \<and> (\<forall>pre j post t.
         \<not> hasRunningJobs (Some jobs) \<and> jobs = pre @ j # post
         \<and> (\<forall>x \<in> set pre. status x \<noteq> ''completed'') \<and> status j = ''completed''
         \<and> completed_at j = Some t \<and> t \<noteq> []
         \<longrightarrow> last_scrape clk (Some jobs) = timeAgo clk (Some t))
   \<and> (\<not> hasRunningJobs (Some jobs) \<and> (\<forall>x \<in> set jobs. status x \<noteq> ''completed'')
         \<longrightarrow> last_scrape clk (Some jobs) = ''Never'')
   \<and> last_scrape clk None = ''Never''
   \<and> property_count_line (Some n) = int_str n @ '' properties''
   \<and> property_count_line None = ''- properties''
   \<and> query_string recentJobs_url = Some ''limit=5''
   \<and> (\<forall>pre j post.
         \<not> hasRunningJobs (Some jobs) \<and> jobs = pre @ j # post
         \<and> (\<forall>x \<in> set pre. status x \<noteq> ''completed'') \<and> status j = ''completed''
         \<and> (completed_at j = None \<or> completed_at j = Some [])
         \<longrightarrow> last_scrape clk (Some jobs) = ''Never'')"
proof (intro conjI allI impI)
  show "hasRunningJobs (Some jobs) \<longleftrightarrow> (\<exists>j \<in> set jobs. status j = ''running'')"
    by (rule hasRunningJobs_iff)
next
  assume "hasRunningJobs recentJobs"
  then show "last_scrape clk recentJobs = ''Running now''"
    by (simp add: last_scrape_def)
next
  fix pre j post t
  assume a: "\<not> hasRunningJobs (Some jobs) \<and> jobs = pre @ j # post
         \<and> (\<forall>x \<in> set pre. status x \<noteq> ''completed'') \<and> status j = ''completed''
         \<and> completed_at j = Some t \<and> t \<noteq> []"
  then have f: "find (\<lambda>j. status j = ''completed'') jobs = Some j"
    by (simp add: find_first)
  from a have nr: "\<not> hasRunningJobs (Some jobs)" by (rule conjunct1)
  from a have t: "completed_at j = Some t" "t \<noteq> []" by blast+
  show "last_scrape clk (Some jobs) = timeAgo clk (Some t)"
    by (simp add: last_scrape_def lastCompletedJob_def nr f t)
next
  assume a: "\<not> hasRunningJobs (Some jobs) \<and> (\<forall>x \<in> set jobs. status x \<noteq> ''completed'')"
  then have f: "find (\<lambda>j. status j = ''completed'') jobs = None"
    by (simp add: find_none)
  from a have nr: "\<not> hasRunningJobs (Some jobs)" by (rule conjunct1)
  show "last_scrape clk (Some jobs) = ''Never''"
    by (simp add: last_scrape_def lastCompletedJob_def nr f)
next
  show "last_scrape clk None = ''Never''"
    by (simp add: last_scrape_def lastCompletedJob_def hasRunningJobs_def runningSources_def)
next
  show "property_count_line (Some n) = int_str n @ '' properties''"
    by (simp add: property_count_line_def)
next
  show "property_count_line None = ''- properties''"
    by (simp add: property_count_line_def)
next
  show "query_string recentJobs_url = Some ''limit=5''"
    by (simp add: query_string_def recentJobs_url_def)
next
  fix pre j post
  assume a: "\<not> hasRunningJobs (Some jobs) \<and> jobs = pre @ j # post
         \<and> (\<forall>x \<in> set pre. status x \<noteq> ''completed'') \<and> status j = ''completed''
         \<and> (completed_at j = None \<or> completed_at j = Some [])"
  then have f: "find (\<lambda>j. status j = ''completed'') jobs = Some j"
    by (simp add: find_first)
  from a have nr: "\<not> hasRunningJobs (Some jobs)" by (rule conjunct1)
  from a have "completed_at j = None \<or> completed_at j = Some []" by blast
  then show "last_scrape clk (Some jobs) = ''Never''"
    by (auto simp: last_scrape_def lastCompletedJob_def nr f)
qed

theorem dashboard_health_witness:
  "hasRunningJobs (Some [job_running, job_completed])
   \<and> last_scrape clock0 (Some [job_running, job_completed]) = ''Running now''
   \<and> \<not> hasRunningJobs (Some [job0, job_completed])
   \<and> last_scrape clock0 (Some [job0, job_completed]) = timeAgo clock0 (Some ''2024-05-01T09:05:00Z'')
   \<and> \<not> hasRunningJobs (Some [job0])
   \<and> last_scrape clock0 (Some [job0]) = ''Never''
   \<and> \<not> hasRunningJobs (Some [job0, job2]) \<and> status job2 = ''completed''
   \<and> completed_at job2 = None
   \<and> last_scrape clock0 (Some [job0, job2]) = ''Never''"
proof -
  have r: "hasRunningJobs (Some [job_running, job_completed])"
    by (simp add: hasRunningJobs_def runningSources_def job_running_def job0_def)
  have n1: "\<not> hasRunningJobs (Some [job0, job_completed])"
    by (simp add: hasRunningJobs_def runningSources_def job_completed_def job0_def)
  have n2: "\<not> hasRunningJobs (Some [job0])"
    by (simp add: hasRunningJobs_def runningSources_def job0_def)
  note T1 = dashboard_health [of "[job_running, job_completed]" "Some [job_running, job_completed]" clock0]
  note T2 = dashboard_health [of "[job0, job_completed]" "Some [job0, job_completed]" clock0]
  note T3 = dashboard_health [of "[job0]" "Some [job0]" clock0]
  from T1 [THEN conjunct2, THEN conjunct1] r
  have a: "last_scrape clock0 (Some [job_running, job_completed]) = ''Running now''"
    by (rule mp)
  have "\<forall>pre j post t.
         \<not> hasRunningJobs (Some [job0, job_completed]) \<and> [job0, job_completed] = pre @ j # post
         \<and> (\<forall>x \<in> set pre. status x \<noteq> ''completed'') \<and> status j = ''completed''
         \<and> completed_at j = Some t \<and> t \<noteq> []
         \<longrightarrow> last_scrape clock0 (Some [job0, job_completed]) = timeAgo clock0 (Some t)"
    by (rule T2 [THEN conjunct2, THEN conjunct2, THEN conjunct1])
  from this [rule_format, of "[job0]" job_completed "[]" "''2024-05-01T09:05:00Z''"] n1
  have b: "last_scrape clock0 (Some [job0, job_completed]) = timeAgo clock0 (Some ''2024-05-01T09:05:00Z'')"
    by (simp add: job_completed_def job0_def)
  have "\<not> hasRunningJobs (Some [job0]) \<and> (\<forall>x \<in> set [job0]. status x \<noteq> ''completed'')
         \<longrightarrow> last_scrape clock0 (Some [job0]) = ''Never''"
    by (rule T3 [THEN conjunct2, THEN conjunct2, THEN conjunct2, THEN conjunct1])
  with n2 have c: "last_scrape clock0 (Some [job0]) = ''Never''"
    by (simp add: job0_def)
  have n3: "\<not> hasRunningJobs (Some [job0, job2])"
    by (simp add: hasRunningJobs_def runningSources_def job2_def job0_def)
  have s2: "status job2 = ''completed''" and c2: "completed_at job2 = None"
    by (simp_all add: job2_def job0_def)
  note T4 = dashboard_health [of "[job0, job2]" "Some [job0, job2]" clock0]
  have "\<forall>pre j post.
         \<not> hasRunningJobs (Some [job0, job2]) \<and> [job0, job2] = pre @ j # post
         \<and> (\<forall>x \<in> set pre. status x \<noteq> ''completed'') \<and> status j = ''completed''
         \<and> (completed_at j = None \<or> completed_at j = Some [])
         \<longrightarrow> last_scrape clock0 (Some [job0, job2]) = ''Never''"
    by (rule T4 [THEN conjunct2, THEN conjunct2, THEN conjunct2, THEN conjunct2, THEN conjunct2,
          THEN conjunct2, THEN conjunct2, THEN conjunct2])
  from this [rule_format, of "[job0]" job2 "[]"] n3 s2 c2
  have d: "last_scrape clock0 (Some [job0, job2]) = ''Never''"
    by (simp add: job0_def)
  show ?thesis by (intro conjI r a n1 b n2 c n3 s2 c2 d)
qed

section \<open>The counters of the jobs table\<close>

text \<open>
  C2, as stated: the jobs table renders the four counters found, new, updated and skipped.
  The table has no column for skipped (and the type \<open>ScrapeJob\<close> no such field).
\<close>

theorem jobs_table_no_skipped:
  "''Skipped'' \<notin> set jobs_table_header
   \<and> job_cell clock0 None job0 ''Skipped'' = None
   \<and> job_cell clock0 None job0 ''Found'' = Some ''3''
   \<and> job_cell clock0 None job0 ''New'' = Some ''+2''
   \<and> job_cell clock0 None job0 ''Updated'' = Some ''0''"
  by (simp add: job_cell_def job_row_def jobs_table_header_def job0_def int_str_def nat_str.simps)

text \<open>
  C2, amended. Every Job carries three outcome counters, found, new and updated, and the
  jobs table renders each of the three for every Job it shows: Found as the number, New with
  a leading plus sign and Updated with a leading tilde when positive. These are the only
  counter columns.
\<close>

theorem job_row_counters:
  "length (job_row clk sources j) = length jobs_table_header
   \<and> job_cell clk sources j ''Found'' = Some (int_str (listings_found j))
   \<and> job_cell clk sources j ''New''
       = Some ((if listings_new j > 0 then ''+'' else []) @ int_str (listings_new j))
   \<and> job_cell clk sources j ''Updated''
       = Some ((if listings_updated j > 0 then ''~'' else []) @ int_str (listings_updated j))
   \<and> filter (\<lambda>c. c \<in> set [''Found'', ''New'', ''Updated'', ''Skipped'']) jobs_table_header
       = [''Found'', ''New'', ''Updated'']"
  by (simp add: job_cell_def job_row_def jobs_table_header_def)

section \<open>The on-demand trigger\<close>







text \<open>
  The guard is on the choice, and the selection is not looked at again when the answer of
  the sources query changes: chosen while enabled and disabled by the next answer, a
  source is still sent.
\<close>

lemma admin_run_after_refetch:
  "admin_run initial_admin_state
     [(Some [suumo], ChooseSource ''suumo''), (Some [suumo_disabled], ClickStartScrape)]
   = (initial_admin_state\<lparr>selectedSource := ''suumo'', createJob_isPending := True\<rparr>,
      [\<lparr>url = ''/scraping/jobs'', body = [(''source_id'', ''suumo'')]\<rparr>])"
  by (simp add: initial_admin_state_def suumo_def source_options_def startScrape_disabled_def
      startScrape_onClick_def createJob_mutationFn_def)



section \<open>The four job statuses\<close>

lemma status_filter_values:
  "map fst status_filter_options = [[], ''pending'', ''running'', ''completed'', ''failed'']"
  by (simp add: status_filter_options_def)

lemma StatusBadge_known:
  "StatusBadge_style ''pending'' = JsString ''bg-gray-100 text-gray-700''"
  "StatusBadge_style ''running'' = JsString ''bg-blue-100 text-blue-700 animate-pulse''"
  "StatusBadge_style ''completed'' = JsString ''bg-green-100 text-green-800''"
  "StatusBadge_style ''failed'' = JsString ''bg-red-100 text-red-800''"
  by (simp_all add: StatusBadge_style_def object_get_def styles_def nullish_or_def)

lemma StatusBadge_distinct:
  "distinct (map StatusBadge_style [''pending'', ''running'', ''completed'', ''failed''])"
  by (simp add: StatusBadge_known)

lemma StatusBadge_fallback:
  assumes "st \<notin> set [''pending'', ''running'', ''completed'', ''failed'']"
    and "object_prototype_get st = JsUndefined"
  shows "StatusBadge_style st = JsString ''bg-gray-100 text-gray-700''"
  using assms by (simp add: StatusBadge_style_def object_get_def styles_def nullish_or_def)

text \<open>
  C4. The status filter offers the four states and the badge gives each a style of its own
  (see above); a status outside the four falls back to the neutral style when the style
  object inherits nothing under that name. Under the name \<open>constructor\<close> the lookup finds
  the function that every object literal inherits, the operator \<open>??\<close> keeps it, and the
  badge gets no neutral style.
\<close>

theorem StatusBadge_constructor:
  "StatusBadge_style ''constructor'' = JsNativeFunction ''Object''
   \<and> StatusBadge_style ''constructor'' \<noteq> JsString ''bg-gray-100 text-gray-700''
   \<and> ''constructor'' \<notin> set [''pending'', ''running'', ''completed'', ''failed'']"
  by (simp add: StatusBadge_style_def object_get_def styles_def nullish_or_def
      object_prototype_get_def)

section \<open>The job-history request of the admin page\<close>

text \<open>
  C5. Every jobs request of the admin page carries \<open>limit=50\<close>, carries \<open>status\<close> exactly when
  a status is chosen and \<open>source_id\<close> exactly when a source is chosen, each with the chosen
  value, in this order in the URL.
\<close>

theorem jobs_query_filters:
  "jobs_query_params st =
     (''limit'', ''50'')
     # (if jobStatusFilter st \<noteq> [] then [(''status'', jobStatusFilter st)] else [])
     @ (if jobSourceFilter st \<noteq> [] then [(''source_id'', jobSourceFilter st)] else [])
   \<and> map_of (jobs_query_params st) ''limit'' = Some ''50''
   \<and> (''status'' \<in> fst ` set (jobs_query_params st) \<longleftrightarrow> jobStatusFilter st \<noteq> [])
   \<and> (''source_id'' \<in> fst ` set (jobs_query_params st) \<longleftrightarrow> jobSourceFilter st \<noteq> [])
   \<and> map_of (jobs_query_params st) ''status''
       = (if jobStatusFilter st = [] then None else Some (jobStatusFilter st))
   \<and> map_of (jobs_query_params st) ''source_id''
       = (if jobSourceFilter st = [] then None else Some (jobSourceFilter st))
   \<and> jobs_query_url st =
       ''/scraping/jobs?limit=50''
       @ (if jobStatusFilter st \<noteq> [] then ''&status='' @ form_encode (jobStatusFilter st) else [])
       @ (if jobSourceFilter st \<noteq> [] then ''&source_id='' @ form_encode (jobSourceFilter st) else [])"
  by (simp add: jobs_query_params_def jobs_query_url_def Let_def form_encode_def form_byte_def
      form_unreserved_def)

section \<open>The error cell of the jobs table\<close>

lemma job_row_error_cell:
  "job_cell clk sources j ''Error'' =
     Some (case error_message j of None \<Rightarrow> ''-'' | Some m \<Rightarrow> if m = [] then ''-'' else m)"
  by (simp add: job_cell_def job_row_def jobs_table_header_def)

text \<open>
  C6, as stated: a dash is shown exactly when the Job has no error message. A Job whose
  error message is the empty text has a message (the title attribute carries it), and the
  cell shows a dash.
\<close>

theorem error_cell_empty_message:
  "error_message job_empty_message \<noteq> None
   \<and> job_cell clock0 None job_empty_message ''Error'' = Some ''-''
   \<and> error_cell_title job_empty_message = Some []"
  by (simp add: job_row_error_cell job_empty_message_def job0_def error_cell_title_def)

text \<open>
  C6, amended. For every Job of the table the title of the error cell carries the error
  message verbatim whenever there is one, and the text of the cell (cut off on screen by the
  \<open>truncate\<close> class when it is too wide) is the message verbatim when the message is not
  empty; the cell shows a dash when the message is null or empty, and shows a dash only then
  or when the message is itself a dash.
\<close>

theorem error_cell_shows_message:
  "(\<forall>m. error_message j = Some m \<longrightarrow> error_cell_title j = Some m)
   \<and> (\<forall>m. error_message j = Some m \<and> m \<noteq> [] \<longrightarrow> job_cell clk sources j ''Error'' = Some m)
   \<and> (error_message j = None \<or> error_message j = Some [] \<longrightarrow>
        job_cell clk sources j ''Error'' = Some ''-'')
   \<and> (job_cell clk sources j ''Error'' = Some ''-'' \<longleftrightarrow>
        error_message j = None \<or> error_message j = Some [] \<or> error_message j = Some ''-'')
   \<and> (error_message j = None \<longrightarrow> error_cell_title j = None)"
  by (auto simp: job_row_error_cell error_cell_title_def split: option.splits)

theorem error_cell_shows_message_witness:
  "error_message job0 = Some ''HTTP 403'' \<and> ''HTTP 403'' \<noteq> []
   \<and> error_cell_title job0 = Some ''HTTP 403''
   \<and> job_cell clock0 None job0 ''Error'' = Some ''HTTP 403''
   \<and> error_message job2 = None \<and> job_cell clock0 None job2 ''Error'' = Some ''-''
   \<and> error_cell_title job2 = None"
  using error_cell_shows_message [of job0 clock0 None] error_cell_shows_message [of job2 clock0 None]
  by (simp add: job2_def job0_def)

section \<open>The scheduler controls\<close>

text \<open>
  C7. The start control sends the interval of the page's state as the one parameter
  \<open>interval_hours\<close> of the start request, which is the number last entered in the interval
  field, and the stop control sends a request without a query and with an empty body.
\<close>

theorem scheduler_requests:
  "url (startScheduler_onClick pf st)
     = ''/scraping/scheduler/start?interval_hours='' @ num_str pf (schedulerInterval st)
   \<and> query_string (url (startScheduler_onClick pf st))
       = Some (''interval_hours='' @ num_str pf (schedulerInterval st))
   \<and> body (startScheduler_onClick pf st) = []
   \<and> query_string (url (startScheduler_onClick pf (fst (admin_step sources st (SetInterval n)))))
       = Some (''interval_hours='' @ num_str pf n)
   \<and> url stopScheduler_onClick = ''/scraping/scheduler/stop''
   \<and> query_string (url stopScheduler_onClick) = None
   \<and> body stopScheduler_onClick = []"
  by (simp add: startScheduler_onClick_def startScheduler_mutationFn_def stopScheduler_onClick_def
      stopScheduler_mutationFn_def query_string_def)

end
